theory Spec2Isabelle
  imports Main "HOL-Library.Word" "HOL-Library.AList"
begin

section \<open>Errors\<close>

text \<open>
  Every exception the notebook can raise is a value. \<open>KeyError\<close> carries the column
  labels that were not found (\<^verbatim>\<open>DataFrame.drop\<close>, \<^verbatim>\<open>data[name]\<close>);
  \<open>TimestampParseError\<close> is the error of \<^verbatim>\<open>pd.to_datetime\<close> on a value it cannot
  parse; \<open>NACastError\<close> is the error of \<^verbatim>\<open>.astype(int)\<close> on a missing value;
  \<open>LengthMismatchError\<close> is the error of assigning an array of the wrong length to a
  column; \<open>LibraryError\<close> stands for a failure inside LightGBM or scikit-learn.
\<close>

datatype error =
    KeyError "string list"
  | TimestampParseError
  | NACastError
  | LengthMismatchError
  | LibraryError

definition bind_err :: "error + 'a \<Rightarrow> ('a \<Rightarrow> error + 'b) \<Rightarrow> error + 'b" where
  "bind_err r f = (case r of Inl e \<Rightarrow> Inl e | Inr x \<Rightarrow> f x)"

section \<open>Date-time values\<close>

text \<open>
  A parsed timestamp, with the calendar fields pandas exposes through \<^verbatim>\<open>.dt\<close>.
  \<open>month\<close>, \<open>day\<close>, \<open>hour\<close> and \<open>minute\<close> are the fields themselves.
\<close>

record datetime =
  year :: int
  month :: int
  day :: int
  hour :: int
  minute :: int
  second :: int

definition is_leap :: "int \<Rightarrow> bool" where
  "is_leap y = (y mod 4 = 0 \<and> (y mod 100 \<noteq> 0 \<or> y mod 400 = 0))"

definition days_in_month :: "int \<Rightarrow> int \<Rightarrow> int" where
  "days_in_month y m =
     (if m = 2 then (if is_leap y then 29 else 28)
      else if m = 4 \<or> m = 6 \<or> m = 9 \<or> m = 11 then 30 else 31)"

definition days_before_year :: "int \<Rightarrow> int" where
  "days_before_year y = (let p = y - 1 in p * 365 + p div 4 - p div 100 + p div 400)"

definition days_before_month :: "int \<Rightarrow> int \<Rightarrow> int" where
  "days_before_month y m = (\<Sum>k \<leftarrow> [1 ..< nat m]. days_in_month y (int k))"

definition ymd2ord :: "int \<Rightarrow> int \<Rightarrow> int \<Rightarrow> int" where
  "ymd2ord y m d = days_before_year y + days_before_month y m + d"

text \<open>
  Modelled from the spec: \<^verbatim>\<open>.dt.dayofyear\<close> of pandas (pandas is not part of the
  repository), "day-of-year (1-366)".
\<close>

definition dayofyear :: "datetime \<Rightarrow> int" where
  "dayofyear t = days_before_month (year t) (month t) + day t"

text \<open>
  Modelled from the spec: \<^verbatim>\<open>.dt.dayofweek\<close> of pandas, "day-of-week
  (0=Monday..6=Sunday)". Day 1 of the proleptic Gregorian calendar is a Monday.
\<close>

definition dayofweek :: "datetime \<Rightarrow> int" where
  "dayofweek t = (ymd2ord (year t) (month t) (day t) + 6) mod 7"

text \<open>
  Modelled from the spec: \<^verbatim>\<open>.dt.isocalendar().week\<close> of pandas, "ISO week-of-year
  (1-53, integral)". Week 1 is the week (Monday to Sunday) that holds the year's first
  Thursday.
\<close>

definition isoweek1monday :: "int \<Rightarrow> int" where
  "isoweek1monday y =
     (let firstday = ymd2ord y 1 1;
          firstweekday = (firstday + 6) mod 7;
          week1monday = firstday - firstweekday
      in if firstweekday > 3 then week1monday + 7 else week1monday)"

definition isoweek :: "datetime \<Rightarrow> int" where
  "isoweek t =
     (let today = ymd2ord (year t) (month t) (day t);
          week = (today - isoweek1monday (year t)) div 7
      in if week < 0 then (today - isoweek1monday (year t - 1)) div 7 + 1
         else if week \<ge> 52 \<and> today \<ge> isoweek1monday (year t + 1) then 1
         else week + 1)"

section \<open>Tabular data\<close>

text \<open>
  A cell of a \<^verbatim>\<open>DataFrame\<close>: an integer, a float (its 64 bits; no arithmetic is done
  on floats here), a string, a date-time value, or a missing value (\<^verbatim>\<open>NaN\<close>,
  \<^verbatim>\<open>NaT\<close>, \<^verbatim>\<open>NA\<close>).
\<close>

datatype cell =
    IntV int
  | FloatV "64 word"
  | StrV string
  | TimeV datetime
  | NaV

text \<open>
  A \<^verbatim>\<open>DataFrame\<close>: the row labels and the columns in their order, each a name with
  its values. Column names are Python strings; they are written here as their UTF-8
  bytes.
\<close>

record dataframe =
  index :: "int list"
  cols :: "(string \<times> cell list) list"

definition columns :: "dataframe \<Rightarrow> string list" where
  "columns df = map fst (cols df)"

definition nrows :: "dataframe \<Rightarrow> nat" where
  "nrows df = length (index df)"

definition ncols :: "dataframe \<Rightarrow> nat" where
  "ncols df = length (cols df)"

text \<open>The column names are unique.\<close>

definition unique_columns :: "dataframe \<Rightarrow> bool" where
  "unique_columns df = distinct (columns df)"

text \<open>Every column holds one value per row.\<close>

definition rectangular :: "dataframe \<Rightarrow> bool" where
  "rectangular df = list_all (\<lambda>c. length (snd c) = nrows df) (cols df)"

text \<open>
  The operations of pandas the notebook uses are modelled here; pandas itself is not
  part of the repository.

  \<^verbatim>\<open>data[name]\<close>: the column, or \<^verbatim>\<open>KeyError\<close>. The tables of the notebook
  come from \<^verbatim>\<open>pd.read_csv\<close> and have unique column names; for a repeated name
  pandas returns a table rather than a column, and this definition, which takes the
  first column of that name, does not follow it.
\<close>

definition getitem :: "dataframe \<Rightarrow> string \<Rightarrow> error + cell list" where
  "getitem df name =
     (case map_of (cols df) name of
        None \<Rightarrow> Inl (KeyError [name])
      | Some v \<Rightarrow> Inr v)"

text \<open>
  \<^verbatim>\<open>data[name] = values\<close>: an existing column of that name is overwritten where it
  stands, a new name is appended as the last column.
\<close>

definition setitem :: "dataframe \<Rightarrow> string \<Rightarrow> cell list \<Rightarrow> dataframe" where
  "setitem df name vals = df\<lparr>cols := AList.update name vals (cols df)\<rparr>"

text \<open>
  \<^verbatim>\<open>data.drop(columns=names)\<close>: \<^verbatim>\<open>KeyError\<close> with the labels that are not
  columns, otherwise the frame without those columns.
\<close>

definition drop_columns :: "dataframe \<Rightarrow> string list \<Rightarrow> error + dataframe" where
  "drop_columns df names =
     (let missing = filter (\<lambda>n. n \<notin> set (columns df)) names
      in if missing \<noteq> [] then Inl (KeyError missing)
         else Inr (df\<lparr>cols := filter (\<lambda>c. fst c \<notin> set names) (cols df)\<rparr>))"

section \<open>The pandas operations used by \<open>time_feature\<close>\<close>

text \<open>
  What \<^verbatim>\<open>pd.to_datetime\<close> makes of one value is a parameter of the model: the
  value cannot be parsed, it is missing (and becomes \<^verbatim>\<open>NaT\<close>), or it is a
  timestamp.
\<close>

datatype parsed = Unparseable | NaT | Stamp datetime

text \<open>
  Modelled from the spec: \<^verbatim>\<open>pd.to_datetime\<close> on a column, called with its default
  \<^verbatim>\<open>errors='raise'\<close>: "fails with TimestampParseError on an unparseable value - no
  row is silently dropped, the whole call fails".
\<close>

definition to_datetime :: "(cell \<Rightarrow> parsed) \<Rightarrow> cell list \<Rightarrow> error + cell list" where
  "to_datetime parse vals =
     (if list_ex (\<lambda>c. parse c = Unparseable) vals then Inl TimestampParseError
      else Inr (map (\<lambda>c. case parse c of Stamp t \<Rightarrow> TimeV t | _ \<Rightarrow> NaV) vals))"

text \<open>\<^verbatim>\<open>column.dt.field\<close>: the field of every timestamp, missing where the timestamp is.\<close>

definition dt_field :: "(datetime \<Rightarrow> int) \<Rightarrow> cell list \<Rightarrow> cell list" where
  "dt_field f vals = map (\<lambda>c. case c of TimeV t \<Rightarrow> IntV (f t) | _ \<Rightarrow> NaV) vals"

text \<open>\<^verbatim>\<open>column.astype(int)\<close>: fails on a missing value.\<close>

definition astype_int :: "cell list \<Rightarrow> error + cell list" where
  "astype_int vals = (if list_ex (\<lambda>c. c = NaV) vals then Inl NACastError else Inr vals)"

text \<open>\<^verbatim>\<open>column // k\<close>: Python's floor division, element by element.\<close>

definition floordiv :: "cell list \<Rightarrow> int \<Rightarrow> cell list" where
  "floordiv vals k = map (\<lambda>c. case c of IntV n \<Rightarrow> IntV (n div k) | _ \<Rightarrow> NaV) vals"

section \<open>\<open>time_feature\<close>\<close>

text \<open>The identifier column and the timestamp column of the source, as UTF-8 bytes.\<close>

definition ID_COL :: string where
  "ID_COL = [CHR 0xE5, CHR 0xBA, CHR 0x8F, CHR 0xE5, CHR 0x8F, CHR 0xB7]"

definition TIME_COL :: string where
  "TIME_COL = [CHR 0xE6, CHR 0x97, CHR 0xB6, CHR 0xE9, CHR 0x97, CHR 0xB4]"

text \<open>
  One line \<^verbatim>\<open>data[name] = f(data[TIME_COL])\<close> of \<open>time_feature\<close>: read the timestamp
  column, compute, assign.
\<close>

definition derive ::
  "string \<Rightarrow> (cell list \<Rightarrow> error + cell list) \<Rightarrow> dataframe \<Rightarrow> error + dataframe" where
  "derive name f data =
     bind_err (getitem data TIME_COL) (\<lambda>ts.
     bind_err (f ts) (\<lambda>vals.
     Inr (setitem data name vals)))"

text \<open>
  The extractor. It works on a copy of its argument, so the argument is left as it was;
  here every step returns a new table. \<^verbatim>\<open>pred_labels\<close> defaults to \<^verbatim>\<open>None\<close>; the test
  \<^verbatim>\<open>if pred_labels:\<close> is Python truthiness, under which \<^verbatim>\<open>None\<close> and the
  empty list are both false.
\<close>

definition time_feature ::
  "(cell \<Rightarrow> parsed) \<Rightarrow> dataframe \<Rightarrow> string list option \<Rightarrow> error + dataframe" where
  "time_feature parse data pred_labels =
     bind_err (drop_columns data [ID_COL]) (\<lambda>data.
     bind_err (derive TIME_COL (to_datetime parse) data) (\<lambda>data.
     bind_err (derive ''month'' (\<lambda>ts. Inr (dt_field month ts)) data) (\<lambda>data.
     bind_err (derive ''day'' (\<lambda>ts. Inr (dt_field day ts)) data) (\<lambda>data.
     bind_err (derive ''hour'' (\<lambda>ts. Inr (dt_field hour ts)) data) (\<lambda>data.
     bind_err (derive ''minute'' (\<lambda>ts. Inr (dt_field minute ts)) data) (\<lambda>data.
     bind_err (derive ''weekofyear'' (\<lambda>ts. astype_int (dt_field isoweek ts)) data) (\<lambda>data.
     bind_err (derive ''dayofyear'' (\<lambda>ts. Inr (dt_field dayofyear ts)) data) (\<lambda>data.
     bind_err (derive ''dayofweek'' (\<lambda>ts. Inr (dt_field dayofweek ts)) data) (\<lambda>data.
     bind_err (derive ''is_weekend'' (\<lambda>ts. Inr (floordiv (dt_field dayofweek ts) 6)) data) (\<lambda>data.
     bind_err (drop_columns data [TIME_COL]) (\<lambda>data.
     case pred_labels of
       None \<Rightarrow> Inr data
     | Some ls \<Rightarrow> if ls \<noteq> [] then drop_columns data ls else Inr data)))))))))))"

text \<open>
  The eight columns the extractor assigns, in the order of the assignments, and the
  frame after the nine assignments of a run in which every step succeeds: the parsed
  timestamps \<open>ts\<close> stored back, then the eight features computed from them.
\<close>

definition derived_names :: "string list" where
  "derived_names =
     [''month'', ''day'', ''hour'', ''minute'', ''weekofyear'', ''dayofyear'', ''dayofweek'',
      ''is_weekend'']"

definition assigned :: "dataframe \<Rightarrow> cell list \<Rightarrow> dataframe" where
  "assigned d ts =
     foldl (\<lambda>d c. setitem d (fst c) (snd c)) d
       [(TIME_COL, ts),
        (''month'', dt_field month ts),
        (''day'', dt_field day ts),
        (''hour'', dt_field hour ts),
        (''minute'', dt_field minute ts),
        (''weekofyear'', dt_field isoweek ts),
        (''dayofyear'', dt_field dayofyear ts),
        (''dayofweek'', dt_field dayofweek ts),
        (''is_weekend'', floordiv (dt_field dayofweek ts) 6)]"

text \<open>The labels the extractor is asked to strip: none when the argument is absent.\<close>

definition labels_of :: "string list option \<Rightarrow> string list" where
  "labels_of pred_labels = (case pred_labels of None \<Rightarrow> [] | Some ls \<Rightarrow> ls)"

section \<open>The training parameters\<close>

text \<open>
  A value of the parameter dictionary: a string, an integer, or a float literal
  (\<open>PFloat m e\<close> is the decimal literal \<open>m / 10^e\<close>, so \<open>PFloat 8 1\<close> is
  \<^verbatim>\<open>0.8\<close>).
\<close>

datatype pval = PStr string | PInt int | PFloat int nat

text \<open>
  \<^verbatim>\<open>lgb_params\<close>. The source file holds two copies of the notebook, equal up to
  the learning rate (\<^verbatim>\<open>0.03\<close> and \<^verbatim>\<open>0.05\<close>) and the name of the output file,
  so the learning rate is the argument.
\<close>

definition lgb_params :: "pval \<Rightarrow> (string \<times> pval) list" where
  "lgb_params learning_rate =
     [(''boosting_type'', PStr ''gbdt''),
      (''objective'', PStr ''regression''),
      (''metric'', PStr ''mae''),
      (''min_child_weight'', PInt 5),
      (''num_leaves'', PInt (2 ^ 5)),
      (''lambda_l2'', PInt 10),
      (''feature_fraction'', PFloat 8 1),
      (''bagging_fraction'', PFloat 8 1),
      (''bagging_freq'', PInt 4),
      (''learning_rate'', learning_rate),
      (''seed'', PInt 2023),
      (''nthread'', PInt 16),
      (''verbose'', PInt (- 1))]"

definition lgb_params_V2 :: "(string \<times> pval) list" where
  "lgb_params_V2 = lgb_params (PFloat 3 2)"

definition lgb_params_V1 :: "(string \<times> pval) list" where
  "lgb_params_V1 = lgb_params (PFloat 5 2)"

text \<open>
  The names under which LightGBM reads the minimal number of samples in a leaf, the
  parameter \<^verbatim>\<open>min_data_in_leaf\<close> and its aliases, from the parameter reference the
  source links to. \<^verbatim>\<open>min_child_weight\<close> is not among them: it is an alias of
  \<^verbatim>\<open>min_sum_hessian_in_leaf\<close>, the minimal sum of hessians in a leaf.
\<close>

definition min_data_in_leaf_names :: "string list" where
  "min_data_in_leaf_names =
     [''min_data_in_leaf'', ''min_data_per_leaf'', ''min_data'', ''min_child_samples'',
      ''min_samples_leaf'']"

definition min_data_in_leaf :: "(string \<times> pval) list \<Rightarrow> pval option" where
  "min_data_in_leaf params =
     (case filter (\<lambda>p. fst p \<in> set min_data_in_leaf_names) params of
        [] \<Rightarrow> None
      | p # _ \<Rightarrow> Some (snd p))"

section \<open>The pipeline\<close>

text \<open>
  scikit-learn and LightGBM are not part of the repository: the functions the notebook
  calls are parameters. \<open>'w\<close> is the state of NumPy's global random generator, which
  \<^verbatim>\<open>train_test_split\<close> reads and advances when it is called without
  \<^verbatim>\<open>random_state\<close>, so the split returns the new state with the two partitions;
  \<open>'m\<close> is the trained model. \<^verbatim>\<open>lgb.Dataset(features, label=labels)\<close> is the pair.
\<close>

datatype callback = LogEvaluation int

text \<open>\<^verbatim>\<open>no_info = lgb.callback.log_evaluation(period=-1)\<close>, the only callback of the run.\<close>

definition no_info :: callback where
  "no_info = LogEvaluation (- 1)"

record ('w, 'm) library =
  train_test_split ::
    "'w \<Rightarrow> dataframe \<Rightarrow> pval \<Rightarrow> error + (dataframe \<times> dataframe) \<times> 'w"
  lgb_train ::
    "(string \<times> pval) list \<Rightarrow> dataframe \<times> cell list \<Rightarrow> nat \<Rightarrow> dataframe \<times> cell list
       \<Rightarrow> callback list \<Rightarrow> error + 'm"
  best_iteration :: "'m \<Rightarrow> int"
  predict :: "'m \<Rightarrow> dataframe \<Rightarrow> int \<Rightarrow> error + cell list"
  mean_absolute_error :: "cell list \<Rightarrow> cell list \<Rightarrow> error + cell"

text \<open>
  The variables of the notebook that the loop reads or updates from pass to pass, and
  the state of NumPy's generator.
\<close>

record 'w state =
  train_set :: dataframe
  valid_set :: dataframe
  pred_labels :: "string list"
  test_features :: dataframe
  MAE_scores :: "(string \<times> cell) list"
  submit :: dataframe
  np_random :: 'w

text \<open>
  \<^verbatim>\<open>submit[pred_label] = test_pred\<close> with an array: its length must be the number
  of rows.
\<close>

definition setitem_array :: "dataframe \<Rightarrow> string \<Rightarrow> cell list \<Rightarrow> error + dataframe" where
  "setitem_array df name vals =
     (if length vals \<noteq> nrows df then Inl LengthMismatchError
      else Inr (setitem df name vals))"

text \<open>The body of the loop over \<^verbatim>\<open>pred_labels\<close>.\<close>

definition label_step ::
  "('w, 'm) library \<Rightarrow> (cell \<Rightarrow> parsed) \<Rightarrow> (string \<times> pval) list \<Rightarrow> string \<Rightarrow> 'w state
     \<Rightarrow> error + 'w state" where
  "label_step lib parse params pred_label st =
     bind_err (time_feature parse (train_set st) (Some (pred_labels st))) (\<lambda>train_features.
     bind_err (getitem (train_set st) pred_label) (\<lambda>train_labels.
     let train_data = (train_features, train_labels) in
     bind_err (time_feature parse (valid_set st) (Some (pred_labels st))) (\<lambda>valid_features.
     bind_err (getitem (valid_set st) pred_label) (\<lambda>valid_labels.
     let valid_data = (valid_features, valid_labels) in
     bind_err (lgb_train lib params train_data 200 valid_data [no_info]) (\<lambda>model.
     bind_err (predict lib model valid_features (best_iteration lib model)) (\<lambda>valid_pred.
     bind_err (predict lib model (test_features st) (best_iteration lib model)) (\<lambda>test_pred.
     bind_err (mean_absolute_error lib valid_pred valid_labels) (\<lambda>MAE_score.
     bind_err (setitem_array (submit st) pred_label test_pred) (\<lambda>submit'.
     Inr (st\<lparr>MAE_scores := AList.update pred_label MAE_score (MAE_scores st),
             submit := submit'\<rparr>))))))))))"

text \<open>\<^verbatim>\<open>for pred_label in pred_labels\<close>: the first error ends the run.\<close>

fun for_labels ::
  "(string \<Rightarrow> 's \<Rightarrow> error + 's) \<Rightarrow> string list \<Rightarrow> 's \<Rightarrow> error + 's" where
  "for_labels body [] st = Inr st"
| "for_labels body (l # ls) st = bind_err (body l st) (for_labels body ls)"

text \<open>\<^verbatim>\<open>list(train_dataset.columns[-34:])\<close>: the last 34 names, all of them when there are fewer.\<close>

definition last_labels :: "dataframe \<Rightarrow> string list" where
  "last_labels df = drop (length (columns df) - 34) (columns df)"

text \<open>
  The notebook from the loaded tables on, cell by cell: the submission frame with the
  identifiers of the test table, the labels, the split with \<^verbatim>\<open>test_size=0.2\<close> and
  no seed, the parameter dictionary, the features of the test table, the loop. The two
  copies of the notebook are the runs with the learning rates \<^verbatim>\<open>0.03\<close> and
  \<^verbatim>\<open>0.05\<close>.
\<close>

definition pipeline ::
  "('w, 'm) library \<Rightarrow> (cell \<Rightarrow> parsed) \<Rightarrow> pval \<Rightarrow> 'w \<Rightarrow> dataframe \<Rightarrow> dataframe
     \<Rightarrow> error + 'w state" where
  "pipeline lib parse learning_rate w train_dataset test_dataset =
     bind_err (getitem test_dataset ID_COL) (\<lambda>ids.
     bind_err (train_test_split lib w train_dataset (PFloat 2 1)) (\<lambda>split.
     bind_err (time_feature parse test_dataset None) (\<lambda>features.
     for_labels (label_step lib parse (lgb_params learning_rate)) (last_labels train_dataset)
       \<lparr>train_set = fst (fst split), valid_set = snd (fst split),
        pred_labels = last_labels train_dataset,
        test_features = features,
        MAE_scores = [],
        submit = \<lparr>index = index test_dataset, cols = [(ID_COL, ids)]\<rparr>,
        np_random = snd split\<rparr>)))"

definition baselineV2 ::
  "('w, 'm) library \<Rightarrow> (cell \<Rightarrow> parsed) \<Rightarrow> 'w \<Rightarrow> dataframe \<Rightarrow> dataframe \<Rightarrow> error + 'w state" where
  "baselineV2 lib parse = pipeline lib parse (PFloat 3 2)"

definition baselineV1 ::
  "('w, 'm) library \<Rightarrow> (cell \<Rightarrow> parsed) \<Rightarrow> 'w \<Rightarrow> dataframe \<Rightarrow> dataframe \<Rightarrow> error + 'w state" where
  "baselineV1 lib parse = pipeline lib parse (PFloat 5 2)"

text \<open>
  What one pass of the loop computes for the label \<open>l\<close> from the partitions \<open>tr\<close>
  and \<open>va\<close>, the labels \<open>ls\<close> and the features \<open>feats\<close> of the test table: the
  score it stores and the predictions it submits.
\<close>

definition label_outcome ::
  "('w, 'm) library \<Rightarrow> (cell \<Rightarrow> parsed) \<Rightarrow> (string \<times> pval) list \<Rightarrow> dataframe \<Rightarrow> dataframe
     \<Rightarrow> string list \<Rightarrow> dataframe \<Rightarrow> string \<Rightarrow> cell \<Rightarrow> cell list \<Rightarrow> bool" where
  "label_outcome lib parse params tr va ls feats l score test_pred =
     (\<exists>train_features train_labels valid_features valid_labels model valid_pred.
        time_feature parse tr (Some ls) = Inr train_features \<and>
        getitem tr l = Inr train_labels \<and>
        time_feature parse va (Some ls) = Inr valid_features \<and>
        getitem va l = Inr valid_labels \<and>
        lgb_train lib params (train_features, train_labels) 200
          (valid_features, valid_labels) [no_info] = Inr model \<and>
        predict lib model valid_features (best_iteration lib model) = Inr valid_pred \<and>
        predict lib model feats (best_iteration lib model) = Inr test_pred \<and>
        mean_absolute_error lib valid_pred valid_labels = Inr score)"

section \<open>Sample tables\<close>

text \<open>
  Concrete inputs on which the definitions are run: a parser that knows two timestamps,
  Saturday 15 July 2023 and Sunday 16 July 2023, and takes a missing value to
  \<^verbatim>\<open>NaT\<close>; a table of two rows; a table that already has a column called
  \<^verbatim>\<open>month\<close>; a table with an unparseable timestamp in its second row.
\<close>

definition saturday :: datetime where
  "saturday = \<lparr>year = 2023, month = 7, day = 15, hour = 8, minute = 30, second = 0\<rparr>"

definition sunday :: datetime where
  "sunday = \<lparr>year = 2023, month = 7, day = 16, hour = 21, minute = 5, second = 0\<rparr>"

definition sample_parse :: "cell \<Rightarrow> parsed" where
  "sample_parse c =
     (if c = StrV ''2023-07-15 08:30:00'' then Stamp saturday
      else if c = StrV ''2023-07-16 21:05:00'' then Stamp sunday
      else if c = NaV then NaT
      else Unparseable)"

definition sample_frame :: dataframe where
  "sample_frame =
     \<lparr>index = [0, 1],
      cols = [(ID_COL, [IntV 1, IntV 2]),
              (TIME_COL, [StrV ''2023-07-15 08:30:00'', StrV ''2023-07-16 21:05:00'']),
              (''x'', [FloatV 0, FloatV 1]),
              (''y'', [IntV 7, IntV 8])]\<rparr>"

definition sample_features :: dataframe where
  "sample_features =
     \<lparr>index = [0, 1],
      cols = [(''x'', [FloatV 0, FloatV 1]),
              (''month'', [IntV 7, IntV 7]),
              (''day'', [IntV 15, IntV 16]),
              (''hour'', [IntV 8, IntV 21]),
              (''minute'', [IntV 30, IntV 5]),
              (''weekofyear'', [IntV 28, IntV 28]),
              (''dayofyear'', [IntV 196, IntV 197]),
              (''dayofweek'', [IntV 5, IntV 6]),
              (''is_weekend'', [IntV 0, IntV 1])]\<rparr>"

definition clash_frame :: dataframe where
  "clash_frame =
     \<lparr>index = [0],
      cols = [(ID_COL, [IntV 1]),
              (TIME_COL, [StrV ''2023-07-15 08:30:00'']),
              (''month'', [IntV 0])]\<rparr>"

definition clash_features :: dataframe where
  "clash_features =
     \<lparr>index = [0],
      cols = [(''month'', [IntV 7]),
              (''day'', [IntV 15]),
              (''hour'', [IntV 8]),
              (''minute'', [IntV 30]),
              (''weekofyear'', [IntV 28]),
              (''dayofyear'', [IntV 196]),
              (''dayofweek'', [IntV 5]),
              (''is_weekend'', [IntV 0])]\<rparr>"

definition bad_frame :: dataframe where
  "bad_frame =
     \<lparr>index = [0, 1],
      cols = [(ID_COL, [IntV 1, IntV 2]),
              (TIME_COL, [StrV ''2023-07-15 08:30:00'', StrV ''yesterday'']),
              (''x'', [FloatV 0, FloatV 1])]\<rparr>"

text \<open>
  A training table of two rows with the identifier, the timestamp, one feature and 34
  label columns, a test table of one row, and a library that always succeeds: the split
  holds the first row out and counts its calls in the generator state, the model is
  trivial, every prediction is \<open>FloatV 0\<close>.
\<close>

definition label_names :: "string list" where
  "label_names = map (\<lambda>k. replicate (Suc k) (CHR ''y'')) [0 ..< 34]"

definition wide_frame :: dataframe where
  "wide_frame =
     \<lparr>index = [0, 1],
      cols = [(ID_COL, [IntV 1, IntV 2]),
              (TIME_COL, [StrV ''2023-07-15 08:30:00'', StrV ''2023-07-16 21:05:00'']),
              (''x'', [FloatV 0, FloatV 1])] @
             map (\<lambda>n. (n, [IntV 7, IntV 8])) label_names\<rparr>"

definition wide_test :: dataframe where
  "wide_test =
     \<lparr>index = [0],
      cols = [(ID_COL, [IntV 3]),
              (TIME_COL, [StrV ''2023-07-16 21:05:00'']),
              (''x'', [FloatV 2])]\<rparr>"

definition first_row_out ::
  "nat \<Rightarrow> dataframe \<Rightarrow> pval \<Rightarrow> error + (dataframe \<times> dataframe) \<times> nat" where
  "first_row_out w df test_size =
     Inr ((\<lparr>index = drop 1 (index df), cols = map (\<lambda>c. (fst c, drop 1 (snd c))) (cols df)\<rparr>,
           \<lparr>index = take 1 (index df), cols = map (\<lambda>c. (fst c, take 1 (snd c))) (cols df)\<rparr>),
          Suc w)"

definition stub_library :: "(nat, unit) library" where
  "stub_library =
     \<lparr>train_test_split = first_row_out,
      lgb_train = (\<lambda>params train_data rounds valid_data callbacks. Inr ()),
      best_iteration = (\<lambda>model. 0),
      predict = (\<lambda>model features num_iteration. Inr (map (\<lambda>i. FloatV 0) (index features))),
      mean_absolute_error = (\<lambda>pred labels. Inr (FloatV 0))\<rparr>"

definition wide_parts :: "dataframe \<times> dataframe" where
  "wide_parts = fst (projr (first_row_out 0 wide_frame (PFloat 2 1)))"

definition sample_run :: "error + nat state" where
  "sample_run = baselineV2 stub_library sample_parse 0 wide_frame wide_test"

section \<open>Facts about the operations\<close>

lemma bind_err_Inl: "bind_err (Inl e) f = Inl e"
  by (simp add: bind_err_def)

lemma bind_err_Inr: "bind_err (Inr x) f = f x"
  by (simp add: bind_err_def)

lemma bind_err_eq_Inr: "bind_err r f = Inr y \<longleftrightarrow> (\<exists>x. r = Inr x \<and> f x = Inr y)"
  by (cases r) (simp_all add: bind_err_def)

lemma index_setitem: "index (setitem df name vals) = index df"
  by (simp add: setitem_def)

lemma columns_setitem:
  "columns (setitem df name vals) =
     (if name \<in> set (columns df) then columns df else columns df @ [name])"
  by (simp add: setitem_def columns_def update_keys)

lemma getitem_setitem:
  "getitem (setitem df name vals) k = (if k = name then Inr vals else getitem df k)"
  by (simp add: getitem_def setitem_def update_conv')

lemma drop_columns_eq_Inr:
  "drop_columns df names = Inr out \<longleftrightarrow>
     set names \<subseteq> set (columns df) \<and>
     out = df\<lparr>cols := filter (\<lambda>c. fst c \<notin> set names) (cols df)\<rparr>"
  by (auto simp: drop_columns_def Let_def filter_empty_conv)

lemma map_of_filter_names:
  "map_of (filter (\<lambda>c. fst c \<notin> N) cs) k = (if k \<in> N then None else map_of cs k)"
  by (induction cs) auto

lemma getitem_drop_columns:
  "drop_columns df names = Inr out \<Longrightarrow>
   getitem out k = (if k \<in> set names then Inl (KeyError [k]) else getitem df k)"
  by (auto simp: drop_columns_eq_Inr getitem_def map_of_filter_names)

lemma columns_drop_columns:
  "drop_columns df names = Inr out \<Longrightarrow>
   columns out = filter (\<lambda>n. n \<notin> set names) (columns df)"
  by (auto simp: drop_columns_eq_Inr columns_def filter_map comp_def)

lemma index_drop_columns: "drop_columns df names = Inr out \<Longrightarrow> index out = index df"
  by (auto simp: drop_columns_eq_Inr)

lemma getitem_Inr_in_columns: "getitem df k = Inr v \<Longrightarrow> k \<in> set (columns df)"
  by (auto simp: getitem_def columns_def split: option.splits dest: map_of_SomeD intro: rev_image_eqI)

lemma names_neq:
  "TIME_COL \<noteq> ID_COL" "TIME_COL \<notin> set derived_names" "ID_COL \<notin> set derived_names"
  "distinct derived_names" "length derived_names = 8"
  by (simp_all add: TIME_COL_def ID_COL_def derived_names_def)

lemma time_feature_normal:
  "time_feature parse data pl =
     bind_err (drop_columns data [ID_COL]) (\<lambda>d1.
     bind_err (getitem d1 TIME_COL) (\<lambda>raw.
     bind_err (to_datetime parse raw) (\<lambda>ts.
     bind_err (astype_int (dt_field isoweek ts)) (\<lambda>wk.
     bind_err (drop_columns (assigned d1 ts) [TIME_COL]) (\<lambda>d2.
     if labels_of pl \<noteq> [] then drop_columns d2 (labels_of pl) else Inr d2)))))"
proof -
  have wk: "astype_int v = Inr w \<Longrightarrow> w = v" for v w
    by (simp add: astype_int_def split: if_splits)
  have tn: "TIME_COL \<noteq> ''month''" "TIME_COL \<noteq> ''day''" "TIME_COL \<noteq> ''hour''"
    "TIME_COL \<noteq> ''minute''" "TIME_COL \<noteq> ''weekofyear''" "TIME_COL \<noteq> ''dayofyear''"
    "TIME_COL \<noteq> ''dayofweek''" "TIME_COL \<noteq> ''is_weekend''"
    by (simp_all add: TIME_COL_def)
  show ?thesis
  proof (cases "drop_columns data [ID_COL]")
    case (Inl e)
    then show ?thesis by (simp add: time_feature_def bind_err_def)
  next
    case d1: (Inr d1)
    show ?thesis
    proof (cases "getitem d1 TIME_COL")
      case (Inl e)
      then show ?thesis using d1 by (simp add: time_feature_def derive_def bind_err_def)
    next
      case raw: (Inr raw)
      show ?thesis
      proof (cases "to_datetime parse raw")
        case (Inl e)
        then show ?thesis using d1 raw by (simp add: time_feature_def derive_def bind_err_def)
      next
        case ts: (Inr ts)
        show ?thesis
        proof (cases "astype_int (dt_field isoweek ts)")
          case (Inl e)
          then show ?thesis using d1 raw ts tn
            by (simp add: time_feature_def derive_def bind_err_Inl bind_err_Inr getitem_setitem)
        next
          case (Inr w)
          then have "astype_int (dt_field isoweek ts) = Inr (dt_field isoweek ts)"
            using wk by blast
          then show ?thesis using d1 raw ts tn
            by (cases pl)
              (simp_all add: time_feature_def derive_def bind_err_Inl bind_err_Inr
                 getitem_setitem assigned_def labels_of_def cong: if_cong)
        qed
      qed
    qed
  qed
qed

lemma drop_columns_Nil: "drop_columns d [] = Inr d"
  by (simp add: drop_columns_def)

lemma time_feature_InrE:
  assumes "time_feature parse data pl = Inr out"
  obtains d1 raw ts d2 where
    "drop_columns data [ID_COL] = Inr d1"
    "getitem d1 TIME_COL = Inr raw"
    "to_datetime parse raw = Inr ts"
    "astype_int (dt_field isoweek ts) = Inr (dt_field isoweek ts)"
    "drop_columns (assigned d1 ts) [TIME_COL] = Inr d2"
    "drop_columns d2 (labels_of pl) = Inr out"
proof -
  from assms obtain d1 raw ts wk d2 where
    a: "drop_columns data [ID_COL] = Inr d1" "getitem d1 TIME_COL = Inr raw"
      "to_datetime parse raw = Inr ts" "astype_int (dt_field isoweek ts) = Inr wk"
      "drop_columns (assigned d1 ts) [TIME_COL] = Inr d2"
    and b: "(if labels_of pl \<noteq> [] then drop_columns d2 (labels_of pl) else Inr d2) = Inr out"
    unfolding time_feature_normal bind_err_eq_Inr by blast
  from a(4) have "astype_int (dt_field isoweek ts) = Inr (dt_field isoweek ts)"
    by (simp add: astype_int_def split: if_splits)
  moreover from b have "drop_columns d2 (labels_of pl) = Inr out"
    by (cases "labels_of pl = []") (simp_all add: drop_columns_Nil)
  ultimately show thesis using a that by blast
qed

lemma index_assigned: "index (assigned d ts) = index d"
  by (simp add: assigned_def index_setitem)

lemma time_feature_index:
  assumes "time_feature parse data pl = Inr out"
  shows "index out = index data"
  using assms by (elim time_feature_InrE) (simp add: index_drop_columns index_assigned)

lemma set_update_subset: "set (AList.update k v al) \<subseteq> insert (k, v) (set al)"
  by (induction al) auto

lemma rectangular_setitem:
  "rectangular d \<Longrightarrow> length v = nrows d \<Longrightarrow> rectangular (setitem d n v)"
  using set_update_subset [of n v "cols d"]
  by (auto simp: rectangular_def list_all_iff setitem_def nrows_def)

lemma rectangular_drop_columns:
  "rectangular d \<Longrightarrow> drop_columns d ns = Inr out \<Longrightarrow> rectangular out"
  by (auto simp: rectangular_def list_all_iff drop_columns_eq_Inr nrows_def)

lemma rectangular_getitem:
  "rectangular d \<Longrightarrow> getitem d k = Inr v \<Longrightarrow> length v = nrows d"
  by (auto simp: rectangular_def list_all_iff getitem_def split: option.splits
        dest!: map_of_SomeD)

lemma length_to_datetime: "to_datetime parse raw = Inr ts \<Longrightarrow> length ts = length raw"
  by (auto simp: to_datetime_def split: if_splits)

lemma rectangular_assigned:
  "rectangular d \<Longrightarrow> length ts = nrows d \<Longrightarrow> rectangular (assigned d ts)"
  by (simp add: assigned_def rectangular_setitem dt_field_def floordiv_def nrows_def
        index_setitem)

lemma time_feature_rectangular:
  assumes "time_feature parse data pl = Inr out" and "rectangular data"
  shows "rectangular out"
proof -
  from assms(1) obtain d1 raw ts d2 where
    d1: "drop_columns data [ID_COL] = Inr d1" and raw: "getitem d1 TIME_COL = Inr raw"
    and ts: "to_datetime parse raw = Inr ts"
    and d2: "drop_columns (assigned d1 ts) [TIME_COL] = Inr d2"
    and out: "drop_columns d2 (labels_of pl) = Inr out"
    by (elim time_feature_InrE)
  have r1: "rectangular d1" using assms(2) d1 by (rule rectangular_drop_columns)
  then have "length ts = nrows d1"
    using raw ts by (simp add: rectangular_getitem length_to_datetime)
  with r1 have "rectangular (assigned d1 ts)" by (rule rectangular_assigned)
  then have "rectangular d2" using d2 by (rule rectangular_drop_columns)
  then show ?thesis using out by (rule rectangular_drop_columns)
qed


lemma length_filter_out:
  "distinct xs \<Longrightarrow> set ns \<subseteq> set xs \<Longrightarrow>
   length (filter (\<lambda>x. x \<notin> set ns) xs) + card (set ns) = length xs"
proof -
  assume d: "distinct xs" and s: "set ns \<subseteq> set xs"
  have "length (filter (\<lambda>x. x \<notin> set ns) xs) = card (set xs - set ns)"
    using d by (simp add: distinct_card [symmetric] set_diff_eq)
  also have "\<dots> = card (set xs) - card (set ns)"
    using s by (simp add: card_Diff_subset)
  finally have "length (filter (\<lambda>x. x \<notin> set ns) xs) = length xs - card (set ns)"
    using d by (simp add: distinct_card)
  moreover have "card (set ns) \<le> length xs"
    using s d card_mono [of "set xs" "set ns"] by (simp add: distinct_card)
  ultimately show ?thesis by simp
qed

lemma ncols_drop_columns:
  assumes "drop_columns d ns = Inr out" and "distinct (columns d)"
  shows "ncols out + card (set ns) = ncols d" and "distinct (columns out)"
proof -
  from assms(1) have s: "set ns \<subseteq> set (columns d)"
    by (simp add: drop_columns_eq_Inr)
  have c: "columns out = filter (\<lambda>n. n \<notin> set ns) (columns d)"
    using assms(1) by (rule columns_drop_columns)
  have "ncols out = length (columns out)" "ncols d = length (columns d)"
    by (simp_all add: ncols_def columns_def)
  then show "ncols out + card (set ns) = ncols d"
    using length_filter_out [OF assms(2) s] c by simp
  show "distinct (columns out)" using c assms(2) by simp
qed

lemma columns_assigned:
  assumes "TIME_COL \<in> set (columns d)" and "set derived_names \<inter> set (columns d) = {}"
  shows "columns (assigned d ts) = columns d @ derived_names"
  using assms by (simp add: assigned_def columns_setitem derived_names_def)

lemma dayofweek_range: "0 \<le> dayofweek t \<and> dayofweek t \<le> 6"
  by (simp add: dayofweek_def)

lemma weekend_rule: "dayofweek t div 6 = (if dayofweek t = 6 then 1 else 0)"
  using dayofweek_range [of t] by (auto simp: div_pos_pos_trivial)

lemma astype_int_all_stamps:
  assumes "astype_int (dt_field f ts) = Inr v"
  shows "\<forall>c \<in> set ts. \<exists>t. c = TimeV t"
proof
  fix c assume "c \<in> set ts"
  then have "(case c of TimeV t \<Rightarrow> IntV (f t) | _ \<Rightarrow> NaV) \<in> set (dt_field f ts)"
    by (simp add: dt_field_def)
  moreover from assms have "NaV \<notin> set (dt_field f ts)"
    by (auto simp: astype_int_def list_ex_iff split: if_splits)
  ultimately have "(case c of TimeV t \<Rightarrow> IntV (f t) | _ \<Rightarrow> NaV) \<noteq> NaV"
    by metis
  then show "\<exists>t. c = TimeV t" by (cases c) simp_all
qed

lemma weekend_column:
  assumes "\<forall>c \<in> set ts. \<exists>t. c = TimeV t"
  shows "floordiv (dt_field dayofweek ts) 6 =
         map (\<lambda>c. if c = IntV 6 then IntV 1 else IntV 0) (dt_field dayofweek ts)"
    and "\<forall>c \<in> set (dt_field dayofweek ts). \<exists>n. c = IntV n \<and> 0 \<le> n \<and> n \<le> 6"
  using assms dayofweek_range by (auto simp: floordiv_def dt_field_def weekend_rule)

lemma getitem_assigned_weekend:
  "getitem (assigned d ts) ''dayofweek'' = Inr (dt_field dayofweek ts)"
  "getitem (assigned d ts) ''is_weekend'' = Inr (floordiv (dt_field dayofweek ts) 6)"
  by (simp_all add: assigned_def getitem_setitem)


lemma label_step_Inr:
  assumes "label_step lib parse params l st = Inr st'"
  shows "train_set st' = train_set st \<and> valid_set st' = valid_set st \<and>
         pred_labels st' = pred_labels st \<and> test_features st' = test_features st \<and>
         np_random st' = np_random st \<and> index (submit st') = index (submit st) \<and>
         (\<exists>score test_pred.
            label_outcome lib parse params (train_set st) (valid_set st) (pred_labels st)
              (test_features st) l score test_pred \<and>
            MAE_scores st' = AList.update l score (MAE_scores st) \<and>
            submit st' = setitem (submit st) l test_pred)"
proof -
  from assms obtain train_features train_labels valid_features valid_labels model
      valid_pred test_pred score submit' where
    h: "time_feature parse (train_set st) (Some (pred_labels st)) = Inr train_features"
      "getitem (train_set st) l = Inr train_labels"
      "time_feature parse (valid_set st) (Some (pred_labels st)) = Inr valid_features"
      "getitem (valid_set st) l = Inr valid_labels"
      "lgb_train lib params (train_features, train_labels) 200
         (valid_features, valid_labels) [no_info] = Inr model"
      "predict lib model valid_features (best_iteration lib model) = Inr valid_pred"
      "predict lib model (test_features st) (best_iteration lib model) = Inr test_pred"
      "mean_absolute_error lib valid_pred valid_labels = Inr score"
    and su: "setitem_array (submit st) l test_pred = Inr submit'"
    and st': "st' = st\<lparr>MAE_scores := AList.update l score (MAE_scores st), submit := submit'\<rparr>"
    unfolding label_step_def bind_err_eq_Inr Let_def by auto
  from su have sub: "submit' = setitem (submit st) l test_pred"
    by (simp add: setitem_array_def split: if_splits)
  have "label_outcome lib parse params (train_set st) (valid_set st) (pred_labels st)
          (test_features st) l score test_pred"
    unfolding label_outcome_def using h by blast
  then show ?thesis using st' sub by (auto simp: index_setitem)
qed

lemma for_labels_Inr:
  assumes "for_labels (label_step lib parse params) ls st = Inr st'"
  shows "train_set st' = train_set st \<and> valid_set st' = valid_set st \<and>
         pred_labels st' = pred_labels st \<and> test_features st' = test_features st \<and>
         np_random st' = np_random st \<and> index (submit st') = index (submit st) \<and>
         (\<forall>l \<in> set ls. \<exists>score test_pred.
            label_outcome lib parse params (train_set st) (valid_set st) (pred_labels st)
              (test_features st) l score test_pred \<and>
            map_of (MAE_scores st') l = Some score \<and>
            getitem (submit st') l = Inr test_pred) \<and>
         (\<forall>k. k \<notin> set ls \<longrightarrow>
            map_of (MAE_scores st') k = map_of (MAE_scores st) k \<and>
            getitem (submit st') k = getitem (submit st) k)"
  using assms
proof (induction ls arbitrary: st)
  case Nil
  then show ?case by simp
next
  case (Cons l ls)
  from Cons.prems obtain st1 where
    s1: "label_step lib parse params l st = Inr st1"
    and s2: "for_labels (label_step lib parse params) ls st1 = Inr st'"
    by (auto simp: bind_err_eq_Inr)
  from label_step_Inr [OF s1] obtain score test_pred where
    keep1: "train_set st1 = train_set st" "valid_set st1 = valid_set st"
      "pred_labels st1 = pred_labels st" "test_features st1 = test_features st"
      "np_random st1 = np_random st" "index (submit st1) = index (submit st)"
    and out1: "label_outcome lib parse params (train_set st) (valid_set st) (pred_labels st)
        (test_features st) l score test_pred"
    and upd1: "MAE_scores st1 = AList.update l score (MAE_scores st)"
      "submit st1 = setitem (submit st) l test_pred"
    by blast
  from upd1 have at1: "map_of (MAE_scores st1) l = Some score"
      "getitem (submit st1) l = Inr test_pred"
    and off1: "\<And>k. k \<noteq> l \<Longrightarrow> map_of (MAE_scores st1) k = map_of (MAE_scores st) k"
      "\<And>k. k \<noteq> l \<Longrightarrow> getitem (submit st1) k = getitem (submit st) k"
    by (simp_all add: update_conv' getitem_setitem)
  note ih = Cons.IH [OF s2]
  from ih have keep: "train_set st' = train_set st" "valid_set st' = valid_set st"
      "pred_labels st' = pred_labels st" "test_features st' = test_features st"
      "np_random st' = np_random st" "index (submit st') = index (submit st)"
    using keep1 by simp_all
  from ih have inside: "\<forall>k \<in> set ls. \<exists>score test_pred.
      label_outcome lib parse params (train_set st) (valid_set st) (pred_labels st)
        (test_features st) k score test_pred \<and>
      map_of (MAE_scores st') k = Some score \<and> getitem (submit st') k = Inr test_pred"
    using keep1 by simp
  from ih have outside: "\<And>k. k \<notin> set ls \<Longrightarrow>
      map_of (MAE_scores st') k = map_of (MAE_scores st1) k \<and>
      getitem (submit st') k = getitem (submit st1) k"
    by blast
  have head: "\<exists>score test_pred.
      label_outcome lib parse params (train_set st) (valid_set st) (pred_labels st)
        (test_features st) l score test_pred \<and>
      map_of (MAE_scores st') l = Some score \<and> getitem (submit st') l = Inr test_pred"
  proof (cases "l \<in> set ls")
    case True
    with inside show ?thesis by blast
  next
    case False
    with outside at1 out1 show ?thesis by auto
  qed
  have rest: "\<forall>k. k \<notin> set (l # ls) \<longrightarrow>
      map_of (MAE_scores st') k = map_of (MAE_scores st) k \<and>
      getitem (submit st') k = getitem (submit st) k"
    using outside off1 by auto
  from keep head inside rest show ?case by auto
qed

lemma for_labels_keys:
  assumes "for_labels (label_step lib parse params) ls st = Inr st'"
    and "distinct ls" and "set ls \<inter> fst ` set (MAE_scores st) = {}"
  shows "map fst (MAE_scores st') = map fst (MAE_scores st) @ ls"
  using assms
proof (induction ls arbitrary: st)
  case Nil
  then show ?case by simp
next
  case (Cons l ls)
  from Cons.prems(1) obtain st1 where
    s1: "label_step lib parse params l st = Inr st1"
    and s2: "for_labels (label_step lib parse params) ls st1 = Inr st'"
    by (auto simp: bind_err_eq_Inr)
  from label_step_Inr [OF s1] obtain score where
    upd: "MAE_scores st1 = AList.update l score (MAE_scores st)"
    by blast
  from Cons.prems(3) have fresh: "l \<notin> fst ` set (MAE_scores st)" by simp
  then have k1: "map fst (MAE_scores st1) = map fst (MAE_scores st) @ [l]"
    by (simp add: upd update_keys)
  then have "fst ` set (MAE_scores st1) = insert l (fst ` set (MAE_scores st))"
    by (metis Un_insert_right append_Nil2 list.simps(15) set_append set_map)
  with Cons.prems(2,3) have "set ls \<inter> fst ` set (MAE_scores st1) = {}" by auto
  with Cons.IH [OF s2] Cons.prems(2) have "map fst (MAE_scores st') = map fst (MAE_scores st1) @ ls"
    by simp
  with k1 show ?case by simp
qed

text \<open>
  A run that succeeds: one call of the split, from the initial state of the generator;
  the partitions, the labels and the generator as that call left them; and for every
  label the pass the loop has made for it, with the score and the predictions it
  stored. In particular every pass trains for 200 rounds with the logging callback and
  no other, and gives \<^verbatim>\<open>model.best_iteration\<close> of the model just trained as
  \<^verbatim>\<open>num_iteration\<close> to both predictions; what LightGBM stores in that attribute is
  not decided by the notebook.
\<close>

lemma pipeline_outcomes:
  assumes "pipeline lib parse lr w train_dataset test_dataset = Inr st"
  obtains tr va w' feats where
    "train_test_split lib w train_dataset (PFloat 2 1) = Inr ((tr, va), w')"
    "time_feature parse test_dataset None = Inr feats"
    "train_set st = tr" "valid_set st = va" "np_random st = w'"
    "pred_labels st = last_labels train_dataset" "test_features st = feats"
    "index (submit st) = index test_dataset"
    "\<forall>l \<in> set (last_labels train_dataset). \<exists>score test_pred.
       label_outcome lib parse (lgb_params lr) tr va (last_labels train_dataset) feats l
         score test_pred \<and>
       map_of (MAE_scores st) l = Some score \<and> getitem (submit st) l = Inr test_pred"
    "distinct (last_labels train_dataset) \<longrightarrow>
       map fst (MAE_scores st) = last_labels train_dataset"
proof -
  from assms obtain ids split feats where
    sp: "train_test_split lib w train_dataset (PFloat 2 1) = Inr split"
    and tf: "time_feature parse test_dataset None = Inr feats"
    and loop: "for_labels (label_step lib parse (lgb_params lr)) (last_labels train_dataset)
       \<lparr>train_set = fst (fst split), valid_set = snd (fst split),
        pred_labels = last_labels train_dataset,
        test_features = feats,
        MAE_scores = [],
        submit = \<lparr>index = index test_dataset, cols = [(ID_COL, ids)]\<rparr>,
        np_random = snd split\<rparr> = Inr st"
    by (auto simp: pipeline_def bind_err_eq_Inr)
  have sp': "train_test_split lib w train_dataset (PFloat 2 1) =
      Inr ((fst (fst split), snd (fst split)), snd split)"
    using sp by simp
  have keys: "distinct (last_labels train_dataset) \<longrightarrow>
      map fst (MAE_scores st) = last_labels train_dataset"
    using for_labels_keys [OF loop] by simp
  from for_labels_Inr [OF loop] sp' tf keys
    that [of "fst (fst split)" "snd (fst split)" "snd split" feats]
  show thesis by simp
qed

lemma getitem_in_columns: "k \<in> set (columns d) \<Longrightarrow> \<exists>v. getitem d k = Inr v"
  by (cases "map_of (cols d) k") (auto simp: getitem_def columns_def map_of_eq_None_iff)

lemma label_step_stub:
  assumes "time_feature parse (train_set st) (Some (pred_labels st)) = Inr a"
    and "time_feature parse (valid_set st) (Some (pred_labels st)) = Inr b"
    and "l \<in> set (columns (train_set st))" and "l \<in> set (columns (valid_set st))"
    and "index (submit st) = index (test_features st)"
  shows "\<exists>st'. label_step stub_library parse params l st = Inr st'"
proof -
  from assms(3) obtain x where x: "getitem (train_set st) l = Inr x"
    using getitem_in_columns by blast
  from assms(4) obtain y where y: "getitem (valid_set st) l = Inr y"
    using getitem_in_columns by blast
  show ?thesis
    using assms(1,2,5) x y
    by (simp add: label_step_def bind_err_Inr stub_library_def setitem_array_def nrows_def)
qed

lemma for_labels_stub:
  assumes "time_feature parse (train_set st) (Some (pred_labels st)) = Inr a"
    and "time_feature parse (valid_set st) (Some (pred_labels st)) = Inr b"
    and "set ls \<subseteq> set (columns (train_set st))" and "set ls \<subseteq> set (columns (valid_set st))"
    and "index (submit st) = index (test_features st)"
  shows "\<not> isl (for_labels (label_step stub_library parse params) ls st)"
  using assms
proof (induction ls arbitrary: st)
  case Nil
  then show ?case by simp
next
  case (Cons l ls)
  from Cons.prems obtain st1 where
    s1: "label_step stub_library parse params l st = Inr st1"
    using label_step_stub [of parse st a b l params] by auto
  note keep = label_step_Inr [OF s1]
  have "\<not> isl (for_labels (label_step stub_library parse params) ls st1)"
    using Cons.prems keep by (intro Cons.IH) auto
  then show ?case using s1 by (simp add: bind_err_Inr)
qed

lemma sample_run_ok: "\<not> isl sample_run"
proof -
  have ids: "getitem wide_test ID_COL = Inr [IntV 3]"
    by code_simp
  have sp: "train_test_split stub_library 0 wide_frame test_size = Inr (wide_parts, 1)"
    for test_size
    by (simp add: stub_library_def first_row_out_def wide_parts_def)
  have "\<not> isl (time_feature sample_parse wide_test None)"
    by code_simp
  then obtain tf where tf: "time_feature sample_parse wide_test None = Inr tf"
    by (cases "time_feature sample_parse wide_test None") auto
  have "\<not> isl (time_feature sample_parse (fst wide_parts) (Some (last_labels wide_frame)))"
    by code_simp
  then obtain a where a:
    "time_feature sample_parse (fst wide_parts) (Some (last_labels wide_frame)) = Inr a"
    by (cases "time_feature sample_parse (fst wide_parts) (Some (last_labels wide_frame))") auto
  have "\<not> isl (time_feature sample_parse (snd wide_parts) (Some (last_labels wide_frame)))"
    by code_simp
  then obtain b where b:
    "time_feature sample_parse (snd wide_parts) (Some (last_labels wide_frame)) = Inr b"
    by (cases "time_feature sample_parse (snd wide_parts) (Some (last_labels wide_frame))") auto
  have "list_all (\<lambda>l. l \<in> set (columns (fst wide_parts))) (last_labels wide_frame)"
    by code_simp
  then have la: "set (last_labels wide_frame) \<subseteq> set (columns (fst wide_parts))"
    by (auto simp: list_all_iff)
  have "list_all (\<lambda>l. l \<in> set (columns (snd wide_parts))) (last_labels wide_frame)"
    by code_simp
  then have lb: "set (last_labels wide_frame) \<subseteq> set (columns (snd wide_parts))"
    by (auto simp: list_all_iff)
  have n: "index tf = index wide_test"
    using tf by (rule time_feature_index)
  show ?thesis
    unfolding sample_run_def baselineV2_def pipeline_def
    by (simp add: ids sp tf bind_err_Inr) (rule for_labels_stub, simp_all add: a b la lb n)
qed

text \<open>
  An unparseable timestamp on any table that has the timestamp column: the error is
  that of the parse when the identifier column is there, and the \<^verbatim>\<open>KeyError\<close> of
  the earlier \<^verbatim>\<open>drop\<close> when it is not.
\<close>

lemma time_feature_unparseable_cases:
  assumes raw: "getitem data TIME_COL = Inr raw"
    and bad: "c \<in> set raw" "parse c = Unparseable"
  shows "time_feature parse data pl =
           (if ID_COL \<in> set (columns data) then Inl TimestampParseError
            else Inl (KeyError [ID_COL]))"
proof (cases "ID_COL \<in> set (columns data)")
  case False
  then have "drop_columns data [ID_COL] = Inl (KeyError [ID_COL])"
    by (simp add: drop_columns_def)
  with False show ?thesis by (simp add: time_feature_normal bind_err_Inl)
next
  case True
  then obtain d1 where d1: "drop_columns data [ID_COL] = Inr d1"
    by (simp add: drop_columns_def)
  have "getitem d1 TIME_COL = Inr raw"
    using raw names_neq(1) by (simp add: getitem_drop_columns [OF d1])
  moreover have "to_datetime parse raw = Inl TimestampParseError"
    using bad by (auto simp: to_datetime_def list_ex_iff)
  ultimately show ?thesis
    using True d1 by (simp add: time_feature_normal bind_err_Inl bind_err_Inr)
qed

lemma sample_features_ok:
  "time_feature sample_parse sample_frame (Some [''y'']) = Inr sample_features"
  by code_simp

section \<open>The time-feature extractor\<close>

text \<open>
  C3. In every table the extractor returns, the \<^verbatim>\<open>is_weekend\<close> value of a row is 1
  if and only if its \<^verbatim>\<open>dayofweek\<close> value is 6 (Sunday, with 0 = Monday), and 0
  otherwise; every \<^verbatim>\<open>dayofweek\<close> value lies in 0..6, so a Saturday (5) has
  \<^verbatim>\<open>is_weekend\<close> = 0. The two columns are read from the result, so they must not be
  among the labels stripped.
\<close>

theorem is_weekend_iff_sunday:
  assumes ok: "time_feature parse data pl = Inr out"
    and kept: "''dayofweek'' \<notin> set (labels_of pl)" "''is_weekend'' \<notin> set (labels_of pl)"
  shows "\<exists>dow. getitem out ''dayofweek'' = Inr dow \<and>
           (\<forall>c \<in> set dow. \<exists>n. c = IntV n \<and> 0 \<le> n \<and> n \<le> 6) \<and>
           getitem out ''is_weekend'' =
             Inr (map (\<lambda>c. if c = IntV 6 then IntV 1 else IntV 0) dow)"
proof -
  from ok obtain d1 raw ts d2 where
    wk: "astype_int (dt_field isoweek ts) = Inr (dt_field isoweek ts)"
    and d2: "drop_columns (assigned d1 ts) [TIME_COL] = Inr d2"
    and out: "drop_columns d2 (labels_of pl) = Inr out"
    by (elim time_feature_InrE)
  have stamps: "\<forall>c \<in> set ts. \<exists>t. c = TimeV t" using wk by (rule astype_int_all_stamps)
  have "getitem out ''dayofweek'' = Inr (dt_field dayofweek ts)"
    using kept(1) by (simp add: getitem_drop_columns [OF out] getitem_drop_columns [OF d2]
        getitem_assigned_weekend TIME_COL_def)
  moreover have "getitem out ''is_weekend'' = Inr (floordiv (dt_field dayofweek ts) 6)"
    using kept(2) by (simp add: getitem_drop_columns [OF out] getitem_drop_columns [OF d2]
        getitem_assigned_weekend TIME_COL_def)
  ultimately show ?thesis using weekend_column [OF stamps] by simp
qed

theorem is_weekend_iff_sunday_witness:
  "time_feature sample_parse sample_frame (Some [''y'']) = Inr sample_features \<and>
   ''dayofweek'' \<notin> set (labels_of (Some [''y''])) \<and>
   ''is_weekend'' \<notin> set (labels_of (Some [''y''])) \<and>
   dayofweek saturday = 5 \<and> dayofweek sunday = 6 \<and>
   getitem sample_features ''dayofweek'' = Inr [IntV 5, IntV 6] \<and>
   getitem sample_features ''is_weekend'' = Inr [IntV 0, IntV 1]"
proof -
  have k1: "''dayofweek'' \<notin> set (labels_of (Some [''y'']))"
    and k2: "''is_weekend'' \<notin> set (labels_of (Some [''y'']))"
    by (simp_all add: labels_of_def)
  have days: "dayofweek saturday = 5" "dayofweek sunday = 6"
    by code_simp+
  have dow: "getitem sample_features ''dayofweek'' = Inr [IntV 5, IntV 6]"
    by code_simp
  from is_weekend_iff_sunday [OF sample_features_ok k1 k2] dow
  have "getitem sample_features ''is_weekend'' =
          Inr (map (\<lambda>c. if c = IntV 6 then IntV 1 else IntV 0) [IntV 5, IntV 6])"
    by auto
  then show ?thesis using sample_features_ok k1 k2 days dow by simp
qed

text \<open>
  C6. When the extractor succeeds, its result has the rows of its input: the same row
  labels in the same order, hence the same number of rows, and a table with one value
  per row in every column stays one.
\<close>

theorem time_feature_keeps_rows:
  assumes "time_feature parse data pl = Inr out"
  shows "nrows out = nrows data \<and> index out = index data \<and>
         (rectangular data \<longrightarrow> rectangular out)"
  using assms time_feature_index [OF assms] time_feature_rectangular [OF assms]
  by (simp add: nrows_def)

theorem time_feature_keeps_rows_witness:
  "time_feature sample_parse sample_frame (Some [''y'']) = Inr sample_features \<and>
   rectangular sample_frame \<and>
   nrows sample_frame = 2 \<and> nrows sample_features = 2 \<and>
   index sample_features = index sample_frame \<and>
   rectangular sample_features"
proof -
  have r: "rectangular sample_frame" and n: "nrows sample_frame = 2"
    by code_simp+
  from time_feature_keeps_rows [OF sample_features_ok] r n
  show ?thesis using sample_features_ok by simp
qed

text \<open>
  C7, as amended. When the extractor succeeds on a table whose column names are unique
  and none of which is already one of the eight derived names, the number of columns of
  the result is the number of columns of the input, minus 2 (identifier and timestamp),
  minus the number of distinct labels stripped (none when no labels are given), plus 8.
  The equation is written without subtraction.
\<close>

theorem time_feature_column_count:
  assumes ok: "time_feature parse data pl = Inr out"
    and uniq: "unique_columns data"
    and fresh: "set derived_names \<inter> set (columns data) = {}"
  shows "ncols out + 2 + card (set (labels_of pl)) = ncols data + 8"
proof -
  from ok obtain d1 raw ts d2 where
    d1: "drop_columns data [ID_COL] = Inr d1" and raw: "getitem d1 TIME_COL = Inr raw"
    and d2: "drop_columns (assigned d1 ts) [TIME_COL] = Inr d2"
    and out: "drop_columns d2 (labels_of pl) = Inr out"
    by (elim time_feature_InrE)
  from uniq have dist: "distinct (columns data)" by (simp add: unique_columns_def)
  have n1: "ncols d1 + 1 = ncols data" and dist1: "distinct (columns d1)"
    using ncols_drop_columns [OF d1 dist] by simp_all
  have "set (columns d1) \<subseteq> set (columns data)"
    by (simp add: columns_drop_columns [OF d1])
  with fresh have fresh1: "set derived_names \<inter> set (columns d1) = {}" by blast
  have tin: "TIME_COL \<in> set (columns d1)" using raw by (rule getitem_Inr_in_columns)
  have ca: "columns (assigned d1 ts) = columns d1 @ derived_names"
    using tin fresh1 by (rule columns_assigned)
  have dista: "distinct (columns (assigned d1 ts))"
    using dist1 fresh1 names_neq(4) by (auto simp: ca)
  have "length (columns (assigned d1 ts)) = length (columns d1) + 8"
    by (simp add: ca names_neq(5))
  then have na: "ncols (assigned d1 ts) = ncols d1 + 8"
    by (simp add: ncols_def columns_def)
  have n2: "ncols d2 + 1 = ncols (assigned d1 ts)" and dist2: "distinct (columns d2)"
    using ncols_drop_columns [OF d2 dista] by simp_all
  have n3: "ncols out + card (set (labels_of pl)) = ncols d2"
    using out dist2 by (rule ncols_drop_columns)
  show ?thesis using n1 na n2 n3 by linarith
qed

theorem time_feature_column_count_witness:
  "time_feature sample_parse sample_frame (Some [''y'']) = Inr sample_features \<and>
   unique_columns sample_frame \<and>
   set derived_names \<inter> set (columns sample_frame) = {} \<and>
   ncols sample_frame = 4 \<and> card (set (labels_of (Some [''y'']))) = 1 \<and>
   ncols sample_features = 9"
proof -
  have u: "unique_columns sample_frame"
    by code_simp
  have "list_all (\<lambda>n. n \<notin> set (columns sample_frame)) derived_names"
    by code_simp
  then have f: "set derived_names \<inter> set (columns sample_frame) = {}"
    by (auto simp: list_all_iff)
  have n: "ncols sample_frame = 4" and c: "card (set (labels_of (Some [''y'']))) = 1"
    by (simp_all add: ncols_def sample_frame_def labels_of_def)
  from time_feature_column_count [OF sample_features_ok u f] n c
  have "ncols sample_features = 9" by simp
  then show ?thesis using sample_features_ok u f n c by simp
qed

text \<open>
  The count stated without the condition on the names fails on a table that already has
  a column \<^verbatim>\<open>month\<close>: the assignment overwrites that column instead of adding one,
  so three input columns give eight output columns, not \<open>3 - 2 - 0 + 8 = 9\<close>.
\<close>

theorem column_count_clash_counterexample:
  "time_feature sample_parse clash_frame None = Inr clash_features \<and>
   unique_columns clash_frame \<and>
   ncols clash_frame = 3 \<and> length (labels_of None) = 0 \<and> ncols clash_features = 8 \<and>
   int (ncols clash_features) \<noteq>
     int (ncols clash_frame) - 2 - int (length (labels_of None)) + 8"
proof -
  have "time_feature sample_parse clash_frame None = Inr clash_features"
    by code_simp
  moreover have "unique_columns clash_frame"
    by code_simp
  moreover have "ncols clash_frame = 3" "ncols clash_features = 8"
    by (simp_all add: ncols_def clash_frame_def clash_features_def)
  ultimately show ?thesis by (simp add: labels_of_def)
qed

text \<open>
  C8. On a table that reaches the parse, that is, one whose identifier column is there
  to be dropped and which has the timestamp column, an unparseable value in any row of
  the timestamp column makes the extractor fail as a whole with the timestamp-parse
  error, whatever the other rows hold and whatever labels are to be stripped: no table
  is returned, so no row is dropped to let the rest succeed.
\<close>

theorem time_feature_unparseable:
  assumes idc: "ID_COL \<in> set (columns data)"
    and raw: "getitem data TIME_COL = Inr raw"
    and bad: "c \<in> set raw" "parse c = Unparseable"
  shows "time_feature parse data pl = Inl TimestampParseError"
  using time_feature_unparseable_cases [where parse = parse and c = c and pl = pl, OF raw bad] idc
  by simp

theorem time_feature_unparseable_witness:
  "ID_COL \<in> set (columns bad_frame) \<and>
   getitem bad_frame TIME_COL = Inr [StrV ''2023-07-15 08:30:00'', StrV ''yesterday''] \<and>
   StrV ''yesterday'' \<in> set [StrV ''2023-07-15 08:30:00'', StrV ''yesterday''] \<and>
   sample_parse (StrV ''yesterday'') = Unparseable \<and>
   time_feature sample_parse bad_frame None = Inl TimestampParseError"
proof -
  have idc: "ID_COL \<in> set (columns bad_frame)"
    by (simp add: columns_def bad_frame_def)
  have raw: "getitem bad_frame TIME_COL =
      Inr [StrV ''2023-07-15 08:30:00'', StrV ''yesterday'']"
    by code_simp
  have mem: "StrV ''yesterday'' \<in> set [StrV ''2023-07-15 08:30:00'', StrV ''yesterday'']"
    by simp
  have bad: "sample_parse (StrV ''yesterday'') = Unparseable"
    by (simp add: sample_parse_def)
  from time_feature_unparseable
    [where parse = sample_parse and c = "StrV ''yesterday''" and pl = None,
     OF idc raw mem bad]
  show ?thesis using idc raw mem bad by simp
qed

text \<open>
  C10. Called with the empty list of labels, the extractor returns what it returns when
  no labels are given: the empty list is false, so the label-dropping step runs in
  neither call.
\<close>

theorem time_feature_empty_labels_as_none:
  "time_feature parse data (Some []) = time_feature parse data None"
  by (simp add: time_feature_def)

section \<open>The run\<close>



text \<open>
  C9, as amended. In a run that succeeds, the model behind the submitted predictions of
  every label was trained by \<^verbatim>\<open>lgb.train\<close> with the dictionary \<^verbatim>\<open>lgb_params\<close> of
  the notebook, for 200 rounds. That dictionary sets \<^verbatim>\<open>min_child_weight\<close> = 5, which
  LightGBM reads as the minimal sum of hessians in a leaf, and sets no minimal number of
  samples per leaf under any of LightGBM's names for it; alongside \<^verbatim>\<open>num_leaves\<close> =
  32, \<^verbatim>\<open>lambda_l2\<close> = 10, \<^verbatim>\<open>feature_fraction\<close> = 0.8,
  \<^verbatim>\<open>bagging_fraction\<close> = 0.8 with \<^verbatim>\<open>bagging_freq\<close> = 4, and the learning rate of
  the notebook.
\<close>

theorem training_runs_hyperparameters:
  assumes "pipeline lib parse lr w train_dataset test_dataset = Inr st"
    and "l \<in> set (last_labels train_dataset)"
  shows "\<exists>train_data valid_data model test_pred.
           lgb_train lib (lgb_params lr) train_data 200 valid_data [no_info] = Inr model \<and>
           predict lib model (test_features st) (best_iteration lib model) = Inr test_pred \<and>
           getitem (submit st) l = Inr test_pred \<and>
           map_of (lgb_params lr) ''min_child_weight'' = Some (PInt 5) \<and>
           min_data_in_leaf (lgb_params lr) = None \<and>
           map_of (lgb_params lr) ''num_leaves'' = Some (PInt 32) \<and>
           map_of (lgb_params lr) ''lambda_l2'' = Some (PInt 10) \<and>
           map_of (lgb_params lr) ''feature_fraction'' = Some (PFloat 8 1) \<and>
           map_of (lgb_params lr) ''bagging_fraction'' = Some (PFloat 8 1) \<and>
           map_of (lgb_params lr) ''bagging_freq'' = Some (PInt 4) \<and>
           map_of (lgb_params lr) ''learning_rate'' = Some lr"
proof -
  from assms obtain tr va feats score test_pred where
    f: "test_features st = feats"
    and o: "label_outcome lib parse (lgb_params lr) tr va (last_labels train_dataset) feats l
         score test_pred"
    and g: "getitem (submit st) l = Inr test_pred"
    by (elim pipeline_outcomes) blast
  from o f obtain train_data valid_data model where
    "lgb_train lib (lgb_params lr) train_data 200 valid_data [no_info] = Inr model"
    "predict lib model (test_features st) (best_iteration lib model) = Inr test_pred"
    unfolding label_outcome_def by blast
  moreover have "map_of (lgb_params lr) ''min_child_weight'' = Some (PInt 5) \<and>
           min_data_in_leaf (lgb_params lr) = None \<and>
           map_of (lgb_params lr) ''num_leaves'' = Some (PInt 32) \<and>
           map_of (lgb_params lr) ''lambda_l2'' = Some (PInt 10) \<and>
           map_of (lgb_params lr) ''feature_fraction'' = Some (PFloat 8 1) \<and>
           map_of (lgb_params lr) ''bagging_fraction'' = Some (PFloat 8 1) \<and>
           map_of (lgb_params lr) ''bagging_freq'' = Some (PInt 4) \<and>
           map_of (lgb_params lr) ''learning_rate'' = Some lr"
    by (simp add: lgb_params_def min_data_in_leaf_def min_data_in_leaf_names_def)
  ultimately show ?thesis using g by blast
qed

theorem training_runs_hyperparameters_witness:
  "\<not> isl sample_run \<and>
   ''y'' \<in> set (last_labels wide_frame) \<and>
   getitem (submit (projr sample_run)) ''y'' = Inr [FloatV 0] \<and>
   map_of (lgb_params (PFloat 3 2)) ''min_child_weight'' = Some (PInt 5) \<and>
   min_data_in_leaf (lgb_params (PFloat 3 2)) = None \<and>
   map_of (lgb_params (PFloat 3 2)) ''num_leaves'' = Some (PInt 32) \<and>
   map_of (lgb_params (PFloat 3 2)) ''learning_rate'' = Some (PFloat 3 2)"
proof -
  have ok: "pipeline stub_library sample_parse (PFloat 3 2) 0 wide_frame wide_test =
      Inr (projr sample_run)"
    using sample_run_ok by (simp add: sample_run_def baselineV2_def)
  have y: "''y'' \<in> set (last_labels wide_frame)"
    by code_simp
  from ok obtain feats where
    "time_feature sample_parse wide_test None = Inr feats"
    "test_features (projr sample_run) = feats"
    by (elim pipeline_outcomes)
  then have "index (test_features (projr sample_run)) = index wide_test"
    by (simp add: time_feature_index)
  then have ix: "index (test_features (projr sample_run)) = [0]"
    by (simp add: wide_test_def)
  from training_runs_hyperparameters [OF ok y] obtain model test_pred where
    p: "predict stub_library model (test_features (projr sample_run))
         (best_iteration stub_library model) = Inr test_pred"
    and g: "getitem (submit (projr sample_run)) ''y'' = Inr test_pred"
    and d: "map_of (lgb_params (PFloat 3 2)) ''min_child_weight'' = Some (PInt 5)"
      "min_data_in_leaf (lgb_params (PFloat 3 2)) = None"
      "map_of (lgb_params (PFloat 3 2)) ''num_leaves'' = Some (PInt 32)"
      "map_of (lgb_params (PFloat 3 2)) ''learning_rate'' = Some (PFloat 3 2)"
    by blast
  from p ix have "test_pred = [FloatV 0]"
    by (auto simp: stub_library_def)
  with g d y show ?thesis using sample_run_ok by simp
qed

text \<open>
  The parameter dictionary of either copy of the notebook has no entry for the minimal
  number of samples per leaf, so that number is not configured as 5.
\<close>

theorem min_samples_per_leaf_counterexample:
  "min_data_in_leaf lgb_params_V2 = None \<and> min_data_in_leaf lgb_params_V1 = None \<and>
   min_data_in_leaf lgb_params_V2 \<noteq> Some (PInt 5) \<and>
   min_data_in_leaf lgb_params_V1 \<noteq> Some (PInt 5)"
  by (simp add: lgb_params_V2_def lgb_params_V1_def lgb_params_def min_data_in_leaf_def
        min_data_in_leaf_names_def)

end
